theory Spec2Isabelle
  imports Complex_Main
begin

section \<open>The risk assessment engine of DiaTrack (class RiskPredictionService)\<close>

text \<open>
  The engine lives in \<^verbatim>\<open>src/src/utils/databaseCheck.ts\<close>, class
  \<^verbatim>\<open>RiskPredictionService\<close>. Every definition below follows one method of
  that class, statement by statement.
\<close>

subsection \<open>JavaScript numbers\<close>

text \<open>
  A TypeScript \<^verbatim>\<open>number\<close> is a finite value, one of the two infinities, or NaN.
  Finite values and decimal literals are taken as exact rationals; the rounding of IEEE
  doubles is not part of the model. The engine only ever compares an input number with a
  literal, so the comparisons are given with a rational on the right. Every comparison
  with NaN is false, as in JavaScript.
\<close>

datatype number = Finite rat | PosInfinity | NegInfinity | NaN

fun js_ge :: "number \<Rightarrow> rat \<Rightarrow> bool" where
  "js_ge (Finite x) c = (c \<le> x)"
| "js_ge PosInfinity c = True"
| "js_ge NegInfinity c = False"
| "js_ge NaN c = False"

fun js_gt :: "number \<Rightarrow> rat \<Rightarrow> bool" where
  "js_gt (Finite x) c = (c < x)"
| "js_gt PosInfinity c = True"
| "js_gt NegInfinity c = False"
| "js_gt NaN c = False"

fun js_lt :: "number \<Rightarrow> rat \<Rightarrow> bool" where
  "js_lt (Finite x) c = (x < c)"
| "js_lt PosInfinity c = False"
| "js_lt NegInfinity c = True"
| "js_lt NaN c = False"

text \<open>\<^verbatim>\<open>x === c\<close> for a finite literal \<open>c\<close>.\<close>

fun js_strict_eq :: "number \<Rightarrow> rat \<Rightarrow> bool" where
  "js_strict_eq (Finite x) c = (x = c)"
| "js_strict_eq PosInfinity c = False"
| "js_strict_eq NegInfinity c = False"
| "js_strict_eq NaN c = False"

text \<open>Truthiness of a number in a condition: 0 and NaN are falsy.\<close>

fun js_truthy :: "number \<Rightarrow> bool" where
  "js_truthy (Finite x) = (x \<noteq> 0)"
| "js_truthy PosInfinity = True"
| "js_truthy NegInfinity = True"
| "js_truthy NaN = False"

fun is_finite :: "number \<Rightarrow> bool" where
  "is_finite (Finite x) = True"
| "is_finite PosInfinity = False"
| "is_finite NegInfinity = False"
| "is_finite NaN = False"

subsection \<open>Data model\<close>

record RiskPredictionInput =
  patient_id :: string
  age :: number
  gender :: number
  bmi :: number
  hypertension :: number
  heart_disease :: number
  smoking_history :: string
  HbA1c_level :: number
  blood_glucose_level :: number

datatype prediction_label = Positive | Negative

datatype risk_level_t = Low | Moderate | High | Critical

record shap_values_t =
  shap_bmi :: rat
  shap_hbA1c_level :: rat
  shap_blood_glucose_level :: rat
  shap_age :: rat
  shap_hypertension :: rat
  shap_heart_disease :: rat
  shap_smoking_history :: rat
  shap_gender :: rat

record feature_contribution =
  name :: string
  contribution :: rat
  description :: string
  risk_factor :: bool

record confidence_interval_t =
  lower :: rat
  upper :: rat

record RiskPredictionResult =
  prediction_result :: prediction_label
  confidence_score :: rat
  risk_level :: risk_level_t
  probability :: rat
  recommendations :: string
  shap_values :: shap_values_t
  feature_contributions :: "feature_contribution list"
  flagged_conditions :: "string list"
  confidence_interval :: confidence_interval_t

subsection \<open>RISK_THRESHOLDS\<close>

definition HbA1c_normal :: rat where "HbA1c_normal = 5.7"
definition HbA1c_prediabetes :: rat where "HbA1c_prediabetes = 6.5"
definition HbA1c_diabetes :: rat where "HbA1c_diabetes = 6.5"
definition HbA1c_highRisk :: rat where "HbA1c_highRisk = 6.9"

definition bloodGlucose_normal :: rat where "bloodGlucose_normal = 100"
definition bloodGlucose_prediabetes :: rat where "bloodGlucose_prediabetes = 126"
definition bloodGlucose_diabetes :: rat where "bloodGlucose_diabetes = 200"
definition bloodGlucose_moderateRisk :: rat where "bloodGlucose_moderateRisk = 120"

definition bmi_normal :: rat where "bmi_normal = 25"
definition bmi_overweight :: rat where "bmi_overweight = 30"
definition bmi_obese :: rat where "bmi_obese = 35"

definition age_increased_risk :: rat where "age_increased_risk = 45"

subsection \<open>shouldForcePositive\<close>

definition shouldForcePositive :: "RiskPredictionInput \<Rightarrow> bool" where
  "shouldForcePositive input =
     (if js_gt (HbA1c_level input) HbA1c_highRisk
         \<and> js_ge (blood_glucose_level input) bloodGlucose_moderateRisk then True
      else if js_ge (blood_glucose_level input) bloodGlucose_diabetes
         \<and> js_ge (HbA1c_level input) 5.9 then True
      else if js_ge (HbA1c_level input) HbA1c_diabetes
         \<or> js_ge (blood_glucose_level input) bloodGlucose_prediabetes then True
      else False)"

subsection \<open>calculateBaseRiskScore (Stage A)\<close>

text \<open>
  The method is a sequence of blocks, one per feature, each adding to \<^verbatim>\<open>score\<close>.
  Each block is a function from the score before it to the score after it. For the HbA1c
  block the branch taken is named, so that reachability of a branch can be stated.
\<close>

datatype HbA1c_branch_t = Diabetes_branch | HighRisk_branch | Normal_branch | No_branch

definition HbA1c_branch :: "RiskPredictionInput \<Rightarrow> HbA1c_branch_t" where
  "HbA1c_branch input =
     (if js_ge (HbA1c_level input) HbA1c_diabetes then Diabetes_branch
      else if js_gt (HbA1c_level input) HbA1c_highRisk then HighRisk_branch
      else if js_ge (HbA1c_level input) HbA1c_normal then Normal_branch
      else No_branch)"

definition base_HbA1c :: "RiskPredictionInput \<Rightarrow> rat \<Rightarrow> rat" where
  "base_HbA1c input score =
     (case HbA1c_branch input of
        Diabetes_branch \<Rightarrow> score + 0.35
      | HighRisk_branch \<Rightarrow> score + 0.30
      | Normal_branch \<Rightarrow> score + 0.15
      | No_branch \<Rightarrow> score)"

definition base_bloodGlucose :: "RiskPredictionInput \<Rightarrow> rat \<Rightarrow> rat" where
  "base_bloodGlucose input score =
     (if js_ge (blood_glucose_level input) bloodGlucose_diabetes then score + 0.25
      else if js_ge (blood_glucose_level input) bloodGlucose_prediabetes then score + 0.20
      else if js_ge (blood_glucose_level input) bloodGlucose_moderateRisk then score + 0.12
      else if js_ge (blood_glucose_level input) bloodGlucose_normal then score + 0.10
      else score)"

definition base_bmi :: "RiskPredictionInput \<Rightarrow> rat \<Rightarrow> rat" where
  "base_bmi input score =
     (if js_ge (bmi input) bmi_obese then score + 0.20
      else if js_ge (bmi input) bmi_overweight then score + 0.15
      else if js_ge (bmi input) bmi_normal then score + 0.05
      else score)"

definition base_age :: "RiskPredictionInput \<Rightarrow> rat \<Rightarrow> rat" where
  "base_age input score =
     (if js_ge (age input) age_increased_risk then score + 0.10 else score)"

definition base_hypertension :: "RiskPredictionInput \<Rightarrow> rat \<Rightarrow> rat" where
  "base_hypertension input score =
     (if js_truthy (hypertension input) then score + 0.15 else score)"

definition base_heart_disease :: "RiskPredictionInput \<Rightarrow> rat \<Rightarrow> rat" where
  "base_heart_disease input score =
     (if js_truthy (heart_disease input) then score + 0.15 else score)"

definition base_smoking :: "RiskPredictionInput \<Rightarrow> rat \<Rightarrow> rat" where
  "base_smoking input score =
     (if smoking_history input = ''current'' then score + 0.10
      else if smoking_history input = ''former'' then score + 0.05
      else score)"

definition base_gender :: "RiskPredictionInput \<Rightarrow> rat \<Rightarrow> rat" where
  "base_gender input score =
     (if js_strict_eq (gender input) 1 then score + 0.05 else score)"

definition calculateBaseRiskScore :: "RiskPredictionInput \<Rightarrow> rat" where
  "calculateBaseRiskScore input =
     (let score = 0;
          score = base_HbA1c input score;
          score = base_bloodGlucose input score;
          score = base_bmi input score;
          score = base_age input score;
          score = base_hypertension input score;
          score = base_heart_disease input score;
          score = base_smoking input score;
          score = base_gender input score
      in min score 1.0)"

subsection \<open>applyRiskModifiers (Stage B)\<close>

definition applyRiskModifiers :: "rat \<Rightarrow> RiskPredictionInput \<Rightarrow> rat" where
  "applyRiskModifiers baseScore input =
     (let modifiedScore = baseScore;
          modifiedScore =
            (if js_gt (blood_glucose_level input) 200 \<and> js_ge (HbA1c_level input) 6.5
             then modifiedScore + 0.20 else modifiedScore);
          modifiedScore =
            (if js_ge (HbA1c_level input) 6.0 \<and> js_ge (bmi input) 30
             then modifiedScore + 0.15 else modifiedScore);
          modifiedScore =
            (if js_ge (age input) 45 \<and> js_ge (HbA1c_level input) 5.7
             then modifiedScore + 0.10 else modifiedScore);
          modifiedScore =
            (if js_truthy (hypertension input) \<and> js_truthy (heart_disease input)
             then modifiedScore + 0.10 else modifiedScore)
      in min modifiedScore 1.0)"

subsection \<open>calculateConfidenceScore (Stage C)\<close>

definition calculateConfidenceScore :: "RiskPredictionInput \<Rightarrow> rat" where
  "calculateConfidenceScore input =
     (let confidence = 0.8;
          confidence =
            (if js_gt (HbA1c_level input) 15 \<or> js_lt (HbA1c_level input) 3
             then confidence - 0.2 else confidence);
          confidence =
            (if js_gt (blood_glucose_level input) 600 \<or> js_lt (blood_glucose_level input) 50
             then confidence - 0.2 else confidence);
          confidence =
            (if js_gt (bmi input) 60 \<or> js_lt (bmi input) 15
             then confidence - 0.1 else confidence);
          confidence =
            (if js_gt (age input) 100 \<or> js_lt (age input) 10
             then confidence - 0.1 else confidence);
          confidence =
            (if js_ge (HbA1c_level input) 6.5 \<and> js_ge (blood_glucose_level input) 200
             then confidence + 0.1 else confidence)
      in max 0.5 (min confidence 1.0))"

subsection \<open>determineRiskLevel\<close>

definition determineRiskLevel :: "rat \<Rightarrow> risk_level_t" where
  "determineRiskLevel score =
     (if score \<ge> 0.8 then Critical
      else if score \<ge> 0.6 then High
      else if score \<ge> 0.4 then Moderate
      else Low)"

subsection \<open>calculateSHAPValues (Stage D)\<close>

text \<open>
  The local variables of the method that hold the per-feature contributions before
  normalisation are definitions of their own.
\<close>

definition hba1cContribution :: "RiskPredictionInput \<Rightarrow> rat" where
  "hba1cContribution input =
     (if js_ge (HbA1c_level input) HbA1c_diabetes then 0.35
      else if js_ge (HbA1c_level input) HbA1c_prediabetes then 0.25
      else if js_ge (HbA1c_level input) HbA1c_normal then 0.15
      else 0)"

definition glucoseContribution :: "RiskPredictionInput \<Rightarrow> rat" where
  "glucoseContribution input =
     (if js_ge (blood_glucose_level input) bloodGlucose_diabetes then 0.25
      else if js_ge (blood_glucose_level input) bloodGlucose_prediabetes then 0.20
      else if js_ge (blood_glucose_level input) bloodGlucose_normal then 0.10
      else 0)"

definition bmiContribution :: "RiskPredictionInput \<Rightarrow> rat" where
  "bmiContribution input =
     (if js_ge (bmi input) bmi_obese then 0.20
      else if js_ge (bmi input) bmi_overweight then 0.15
      else if js_ge (bmi input) bmi_normal then 0.05
      else 0)"

definition ageContribution :: "RiskPredictionInput \<Rightarrow> rat" where
  "ageContribution input = (if js_ge (age input) age_increased_risk then 0.10 else 0)"

definition hypertensionContribution :: "RiskPredictionInput \<Rightarrow> rat" where
  "hypertensionContribution input = (if js_truthy (hypertension input) then 0.15 else 0)"

definition heartDiseaseContribution :: "RiskPredictionInput \<Rightarrow> rat" where
  "heartDiseaseContribution input = (if js_truthy (heart_disease input) then 0.15 else 0)"

definition smokingContribution :: "RiskPredictionInput \<Rightarrow> rat" where
  "smokingContribution input =
     (if smoking_history input = ''current'' then 0.10
      else if smoking_history input = ''former'' then 0.05 else 0)"

definition genderContribution :: "RiskPredictionInput \<Rightarrow> rat" where
  "genderContribution input = (if js_strict_eq (gender input) 1 then 0.05 else 0)"

definition totalContribution :: "RiskPredictionInput \<Rightarrow> rat" where
  "totalContribution input =
     hba1cContribution input + glucoseContribution input + bmiContribution input +
     ageContribution input + hypertensionContribution input + heartDiseaseContribution input +
     smokingContribution input + genderContribution input"

definition zero_shap_values :: shap_values_t where
  "zero_shap_values =
     \<lparr>shap_bmi = 0, shap_hbA1c_level = 0, shap_blood_glucose_level = 0, shap_age = 0,
      shap_hypertension = 0, shap_heart_disease = 0, shap_smoking_history = 0,
      shap_gender = 0\<rparr>"

definition calculateSHAPValues :: "RiskPredictionInput \<Rightarrow> shap_values_t" where
  "calculateSHAPValues input =
     (let totalRisk = calculateBaseRiskScore input in
      if totalRisk = 0 then zero_shap_values
      else if totalContribution input = 0 then zero_shap_values
      else
        \<lparr>shap_bmi = bmiContribution input / totalContribution input,
         shap_hbA1c_level = hba1cContribution input / totalContribution input,
         shap_blood_glucose_level = glucoseContribution input / totalContribution input,
         shap_age = ageContribution input / totalContribution input,
         shap_hypertension = hypertensionContribution input / totalContribution input,
         shap_heart_disease = heartDiseaseContribution input / totalContribution input,
         shap_smoking_history = smokingContribution input / totalContribution input,
         shap_gender = genderContribution input / totalContribution input\<rparr>)"

subsection \<open>generateFeatureContributions\<close>

text \<open>
  An entry of the local array \<^verbatim>\<open>features\<close>. Its fields \<^verbatim>\<open>value\<close> and
  \<^verbatim>\<open>unit\<close> are never read afterwards and are left out.
\<close>

record feature =
  feature_name :: string
  feature_key :: string

definition features :: "feature list" where
  "features =
     [\<lparr>feature_name = ''HbA1c Level'', feature_key = ''hbA1c_level''\<rparr>,
      \<lparr>feature_name = ''Blood Glucose'', feature_key = ''blood_glucose_level''\<rparr>,
      \<lparr>feature_name = ''BMI'', feature_key = ''bmi''\<rparr>,
      \<lparr>feature_name = ''Age'', feature_key = ''age''\<rparr>,
      \<lparr>feature_name = ''Hypertension'', feature_key = ''hypertension''\<rparr>,
      \<lparr>feature_name = ''Heart Disease'', feature_key = ''heart_disease''\<rparr>,
      \<lparr>feature_name = ''Smoking History'', feature_key = ''smoking_history''\<rparr>,
      \<lparr>feature_name = ''Gender'', feature_key = ''gender''\<rparr>]"

text \<open>\<^verbatim>\<open>shapValues[key]\<close>: \<open>None\<close> stands for \<^verbatim>\<open>undefined\<close>.\<close>

definition shap_lookup :: "shap_values_t \<Rightarrow> string \<Rightarrow> rat option" where
  "shap_lookup sv k =
     (if k = ''bmi'' then Some (shap_bmi sv)
      else if k = ''hbA1c_level'' then Some (shap_hbA1c_level sv)
      else if k = ''blood_glucose_level'' then Some (shap_blood_glucose_level sv)
      else if k = ''age'' then Some (shap_age sv)
      else if k = ''hypertension'' then Some (shap_hypertension sv)
      else if k = ''heart_disease'' then Some (shap_heart_disease sv)
      else if k = ''smoking_history'' then Some (shap_smoking_history sv)
      else if k = ''gender'' then Some (shap_gender sv)
      else None)"

text \<open>\<^verbatim>\<open>v || 0\<close>: a falsy \<open>v\<close> (\<^verbatim>\<open>undefined\<close> or 0) gives 0.\<close>

definition or_zero :: "rat option \<Rightarrow> rat" where
  "or_zero v = (case v of None \<Rightarrow> 0 | Some x \<Rightarrow> if x = 0 then 0 else x)"

definition generateFeatureDescription :: "feature \<Rightarrow> RiskPredictionInput \<Rightarrow> string" where
  "generateFeatureDescription f input =
     (if feature_key f = ''hbA1c_level'' then
        (if js_ge (HbA1c_level input) 6.5 then ''Critical: HbA1c indicates diabetes''
         else if js_ge (HbA1c_level input) 5.7 then ''Elevated: HbA1c in prediabetes range''
         else ''Normal: HbA1c within healthy range'')
      else if feature_key f = ''blood_glucose_level'' then
        (if js_ge (blood_glucose_level input) 200
           then ''Critical: Blood glucose indicates diabetes''
         else if js_ge (blood_glucose_level input) 126
           then ''Elevated: Blood glucose in prediabetes range''
         else if js_ge (blood_glucose_level input) 100
           then ''Borderline: Blood glucose above normal''
         else ''Normal: Blood glucose within healthy range'')
      else if feature_key f = ''bmi'' then
        (if js_ge (bmi input) 35 then ''Critical: BMI indicates severe obesity''
         else if js_ge (bmi input) 30 then ''High: BMI indicates obesity''
         else if js_ge (bmi input) 25 then ''Moderate: BMI indicates overweight''
         else ''Normal: BMI within healthy range'')
      else if feature_key f = ''age'' then
        (if js_ge (age input) 65 then ''High: Advanced age increases diabetes risk''
         else if js_ge (age input) 45 then ''Moderate: Age increases diabetes risk''
         else ''Low: Age is not a significant risk factor'')
      else if feature_key f = ''hypertension'' then
        (if js_truthy (hypertension input)
           then ''High: Hypertension is a diabetes risk factor''
         else ''Low: No hypertension'')
      else if feature_key f = ''heart_disease'' then
        (if js_truthy (heart_disease input)
           then ''High: Heart disease is a diabetes risk factor''
         else ''Low: No heart disease'')
      else if feature_key f = ''smoking_history'' then
        (if smoking_history input = ''current''
           then ''High: Current smoking increases diabetes risk''
         else if smoking_history input = ''former''
           then ''Moderate: Former smoking may affect risk''
         else ''Low: No smoking history'')
      else if feature_key f = ''gender'' then
        (if js_strict_eq (gender input) 1
           then ''Moderate: Male gender has slightly higher risk''
         else ''Low: Female gender has lower risk'')
      else ''Feature contribution to risk assessment'')"

definition isRiskFactor :: "feature \<Rightarrow> RiskPredictionInput \<Rightarrow> bool" where
  "isRiskFactor f input =
     (if feature_key f = ''hbA1c_level'' then js_ge (HbA1c_level input) 5.7
      else if feature_key f = ''blood_glucose_level'' then js_ge (blood_glucose_level input) 100
      else if feature_key f = ''bmi'' then js_ge (bmi input) 25
      else if feature_key f = ''age'' then js_ge (age input) 45
      else if feature_key f = ''hypertension'' then js_strict_eq (hypertension input) 1
      else if feature_key f = ''heart_disease'' then js_strict_eq (heart_disease input) 1
      else if feature_key f = ''smoking_history'' then
        smoking_history input = ''current'' \<or> smoking_history input = ''former''
      else if feature_key f = ''gender'' then js_strict_eq (gender input) 1
      else False)"

text \<open>
  \<^verbatim>\<open>features.map(...).sort((a, b) => b.contribution - a.contribution)\<close>.
  \<^verbatim>\<open>Array.prototype.sort\<close> is stable (ECMAScript 2019), and the comparator puts
  \<open>a\<close> before \<open>b\<close> when \<open>a\<close> has the greater contribution: this is the stable
  insertion sort \<^const>\<open>sort_key\<close> on the negated contribution.
\<close>

definition generateFeatureContributions ::
  "shap_values_t \<Rightarrow> RiskPredictionInput \<Rightarrow> feature_contribution list" where
  "generateFeatureContributions shapValues input =
     sort_key (\<lambda>a. - contribution a)
       (map (\<lambda>f. \<lparr>name = feature_name f,
                   contribution = or_zero (shap_lookup shapValues (feature_key f)),
                   description = generateFeatureDescription f input,
                   risk_factor = isRiskFactor f input\<rparr>) features)"

subsection \<open>checkFlaggedConditions\<close>

text \<open>
  Strings are byte lists; the one character of the messages outside ASCII, the sign
  "greater than or equal" (U+2265), is held in its UTF-8 encoding.
\<close>

definition ge_sign :: string where
  "ge_sign = [CHR 0xE2, CHR 0x89, CHR 0xA5]"

definition msg_critical :: string where
  "msg_critical =
     ''CRITICAL: Blood glucose > 200 mg/dL AND HbA1c '' @ ge_sign @
     '' 6.5% - Immediate medical attention required''"

definition msg_hba1c_glucose :: string where
  "msg_hba1c_glucose =
     ''HIGH RISK: HbA1c > 6.9% with Blood glucose '' @ ge_sign @ '' 120 mg/dL''"

definition msg_glucose_hba1c :: string where
  "msg_glucose_hba1c =
     ''HIGH RISK: Blood glucose '' @ ge_sign @ '' 200 mg/dL with HbA1c '' @ ge_sign @ '' 5.9%''"

definition msg_hba1c :: string where
  "msg_hba1c = ''HIGH RISK: HbA1c '' @ ge_sign @ '' 6.5% indicates diabetes''"

definition msg_glucose :: string where
  "msg_glucose = ''HIGH RISK: Blood glucose > 200 mg/dL indicates diabetes''"

definition msg_obesity :: string where
  "msg_obesity = ''HIGH RISK: Severe obesity (BMI '' @ ge_sign @ '' 35)''"

definition msg_prediabetes :: string where
  "msg_prediabetes = ''MODERATE RISK: Both HbA1c and blood glucose in prediabetes range''"

definition msg_age_obesity :: string where
  "msg_age_obesity = ''MODERATE RISK: Age '' @ ge_sign @ '' 45 and obesity combination''"

text \<open>\<^verbatim>\<open>flags.push(m)\<close> appends \<open>m\<close> to the array.\<close>

definition checkFlaggedConditions :: "RiskPredictionInput \<Rightarrow> string list" where
  "checkFlaggedConditions input =
     (let flags = [];
          flags =
            (if js_gt (blood_glucose_level input) 200 \<and> js_ge (HbA1c_level input) 6.5
             then flags @ [msg_critical] else flags);
          flags =
            (if js_gt (HbA1c_level input) 6.9 \<and> js_ge (blood_glucose_level input) 120
             then flags @ [msg_hba1c_glucose] else flags);
          flags =
            (if js_ge (blood_glucose_level input) 200 \<and> js_ge (HbA1c_level input) 5.9
             then flags @ [msg_glucose_hba1c] else flags);
          flags =
            (if js_ge (HbA1c_level input) 6.5 then flags @ [msg_hba1c] else flags);
          flags =
            (if js_gt (blood_glucose_level input) 200 then flags @ [msg_glucose] else flags);
          flags =
            (if js_ge (bmi input) 35 then flags @ [msg_obesity] else flags);
          flags =
            (if js_ge (HbA1c_level input) 5.7 \<and> js_ge (blood_glucose_level input) 126
             then flags @ [msg_prediabetes] else flags);
          flags =
            (if js_ge (age input) 45 \<and> js_ge (bmi input) 30
             then flags @ [msg_age_obesity] else flags)
      in flags)"

subsection \<open>generateRecommendations\<close>

fun starts_with :: "string \<Rightarrow> string \<Rightarrow> bool" where
  "starts_with s [] = True"
| "starts_with [] (c # cs) = False"
| "starts_with (x # xs) (c # cs) = (x = c \<and> starts_with xs cs)"

text \<open>\<^verbatim>\<open>s.includes(sub)\<close> (the name is an Isabelle keyword)\<close>

fun js_includes :: "string \<Rightarrow> string \<Rightarrow> bool" where
  "js_includes [] sub = (sub = [])"
| "js_includes (x # xs) sub = (starts_with (x # xs) sub \<or> js_includes xs sub)"

definition is_whitespace :: "char \<Rightarrow> bool" where
  "is_whitespace c =
     (c = CHR '' '' \<or> c = CHR 0x09 \<or> c = CHR 0x0A \<or> c = CHR 0x0B \<or> c = CHR 0x0C
      \<or> c = CHR 0x0D)"

definition trim :: "string \<Rightarrow> string" where
  "trim s = rev (dropWhile is_whitespace (rev (dropWhile is_whitespace s)))"

definition generateRecommendations ::
  "RiskPredictionInput \<Rightarrow> risk_level_t \<Rightarrow> string list \<Rightarrow> string" where
  "generateRecommendations input riskLevel flaggedConditions =
     (let recommendations = [];
          recommendations =
            (if list_ex (\<lambda>flag. js_includes flag ''CRITICAL'') flaggedConditions
             then recommendations @ ''URGENT: Immediate medical consultation required. ''
             else recommendations);
          recommendations =
            (case riskLevel of
               Critical \<Rightarrow> recommendations @
                 ''Immediate medical intervention required. Consult healthcare provider within 24 hours. ''
             | High \<Rightarrow> recommendations @ ''Schedule medical consultation within 1 week. ''
             | Moderate \<Rightarrow> recommendations @ ''Schedule medical consultation within 2 weeks. ''
             | Low \<Rightarrow> recommendations @ ''Continue regular health monitoring. '');
          recommendations =
            (if js_ge (HbA1c_level input) 6.5 then recommendations @
               ''Diabetes diagnosis likely - immediate lifestyle changes and medical management required. ''
             else if js_ge (HbA1c_level input) 5.7 then recommendations @
               ''Prediabetes detected - focus on diet, exercise, and weight management. ''
             else recommendations);
          recommendations =
            (if js_gt (blood_glucose_level input) 200 then recommendations @
               ''Elevated blood glucose requires immediate attention and monitoring. ''
             else recommendations);
          recommendations =
            (if js_ge (bmi input) 30 then recommendations @
               ''Weight management through diet and exercise is crucial. ''
             else recommendations);
          recommendations =
            (if js_truthy (hypertension input) then recommendations @
               ''Blood pressure management is essential for diabetes prevention. ''
             else recommendations);
          recommendations =
            (if smoking_history input = ''current'' then recommendations @
               ''Smoking cessation is strongly recommended. ''
             else recommendations);
          recommendations = recommendations @
            ''Focus on balanced nutrition, regular physical activity, and stress management. ''
      in trim recommendations)"

subsection \<open>calculateConfidenceInterval\<close>

definition calculateConfidenceInterval :: "rat \<Rightarrow> rat \<Rightarrow> confidence_interval_t" where
  "calculateConfidenceInterval score confidence =
     (let margin = (1 - confidence) * 0.5
      in \<lparr>lower = max 0 (score - margin), upper = min 1 (score + margin)\<rparr>)"

subsection \<open>logPrediction\<close>

text \<open>
  What the persistence collaborator does is outside the engine; \<open>log_env\<close> lists
  the outcomes the method distinguishes. Its whole body is inside
  \<^verbatim>\<open>try { ... } catch (error) { console.error(...) }\<close>, so on every outcome it
  returns normally.
\<close>

datatype error = Error string

datatype log_env = GetUser_throws | No_user | Insert_throws | Insert_error | Insert_ok

definition logPrediction ::
  "log_env \<Rightarrow> RiskPredictionInput \<Rightarrow> RiskPredictionResult \<Rightarrow> error + unit" where
  "logPrediction env input result =
     (case env of
        GetUser_throws \<Rightarrow> Inr ()
      | No_user \<Rightarrow> Inr ()
      | Insert_throws \<Rightarrow> Inr ()
      | Insert_error \<Rightarrow> Inr ()
      | Insert_ok \<Rightarrow> Inr ())"

subsection \<open>calculateRisk\<close>

text \<open>
  The body of the method is inside \<^verbatim>\<open>try\<close>; its \<^verbatim>\<open>catch\<close> rethrows
  \<^verbatim>\<open>new Error('Failed to calculate risk assessment')\<close>. The private methods
  are total on a typed input, so the only call that could hand an exception to the
  \<^verbatim>\<open>catch\<close> is \<^verbatim>\<open>await this.logPrediction(input, result)\<close>.
\<close>

definition calculateRisk :: "log_env \<Rightarrow> RiskPredictionInput \<Rightarrow> error + RiskPredictionResult" where
  "calculateRisk env input =
     (let baseScore = calculateBaseRiskScore input;
          modifiedScore = applyRiskModifiers baseScore input;
          confidenceScore = calculateConfidenceScore input;
          riskLevel = determineRiskLevel modifiedScore;
          shapValues = calculateSHAPValues input;
          featureContributions = generateFeatureContributions shapValues input;
          flaggedConditions = checkFlaggedConditions input;
          recommendations = generateRecommendations input riskLevel flaggedConditions;
          confidenceInterval = calculateConfidenceInterval modifiedScore confidenceScore;
          forcePositive = shouldForcePositive input;
          predictionResult =
            (if forcePositive then Positive
             else (if modifiedScore > 0.5 then Positive else Negative));
          result =
            \<lparr>prediction_result = predictionResult,
             confidence_score = confidenceScore,
             risk_level = riskLevel,
             probability = modifiedScore,
             recommendations = recommendations,
             shap_values = shapValues,
             feature_contributions = featureContributions,
             flagged_conditions = flaggedConditions,
             confidence_interval = confidenceInterval\<rparr>
      in case logPrediction env input result of
           Inl e \<Rightarrow> Inl (Error ''Failed to calculate risk assessment'')
         | Inr u \<Rightarrow> Inr result)"

subsection \<open>Inputs used as examples\<close>

text \<open>
  \<open>critical_example\<close> and \<open>healthy_example\<close> are the first and the last case of
  the table \<^verbatim>\<open>testCases\<close> in the service's test file.
\<close>

definition critical_example :: RiskPredictionInput where
  "critical_example =
     \<lparr>patient_id = ''test001'', age = Finite 55, gender = Finite 1, bmi = Finite 32,
      hypertension = Finite 1, heart_disease = Finite 0, smoking_history = ''former'',
      HbA1c_level = Finite 7.2, blood_glucose_level = Finite 250\<rparr>"

definition healthy_example :: RiskPredictionInput where
  "healthy_example =
     \<lparr>patient_id = ''test004'', age = Finite 35, gender = Finite 0, bmi = Finite 22,
      hypertension = Finite 0, heart_disease = Finite 0, smoking_history = ''never'',
      HbA1c_level = Finite 5.2, blood_glucose_level = Finite 85\<rparr>"

definition override_example :: RiskPredictionInput where
  "override_example =
     \<lparr>patient_id = ''override001'', age = Finite 30, gender = Finite 0, bmi = Finite 22,
      hypertension = Finite 0, heart_disease = Finite 0, smoking_history = ''never'',
      HbA1c_level = Finite 5.0, blood_glucose_level = Finite 126\<rparr>"

definition glucose_example :: RiskPredictionInput where
  "glucose_example =
     \<lparr>patient_id = ''glucose001'', age = Finite 30, gender = Finite 0, bmi = Finite 22,
      hypertension = Finite 0, heart_disease = Finite 0, smoking_history = ''never'',
      HbA1c_level = Finite 5.0, blood_glucose_level = Finite 120\<rparr>"

text \<open>The case "Handles maximum values correctly" of the test file.\<close>

definition maximum_example :: RiskPredictionInput where
  "maximum_example =
     \<lparr>patient_id = ''max001'', age = Finite 100, gender = Finite 1, bmi = Finite 50,
      hypertension = Finite 1, heart_disease = Finite 1, smoking_history = ''current'',
      HbA1c_level = Finite 12.0, blood_glucose_level = Finite 500\<rparr>"

text \<open>An input without a patient identifier and with two numeric fields that are not finite.\<close>

definition invalid_example :: RiskPredictionInput where
  "invalid_example =
     \<lparr>patient_id = [], age = Finite 40, gender = Finite 0, bmi = PosInfinity,
      hypertension = Finite 0, heart_disease = Finite 0, smoking_history = ''never'',
      HbA1c_level = NaN, blood_glucose_level = Finite 90\<rparr>"

subsection \<open>Formulations taken from the specification\<close>

text \<open>
  The condition under which the specification wants an input rejected: the patient
  reference is empty, or one of the numeric fields of its data model (age, BMI, HbA1c,
  blood glucose) is not finite.
\<close>

definition invalid_input :: "RiskPredictionInput \<Rightarrow> bool" where
  "invalid_input input =
     (patient_id input = [] \<or> \<not> is_finite (age input) \<or> \<not> is_finite (bmi input)
      \<or> \<not> is_finite (HbA1c_level input) \<or> \<not> is_finite (blood_glucose_level input))"

text \<open>
  Orders on the attribution list. \<open>spec_field_order\<close> is the order of the input
  fields in the specification's data model (age, sex, bmi, hypertension, heart disease,
  smoking status, HbA1c, blood glucose), written with the names the entries carry;
  \<open>features_order\<close> is the order of the array \<^verbatim>\<open>features\<close> of
  \<^verbatim>\<open>generateFeatureContributions\<close>. A list has its ties in the order \<open>ord\<close>
  when, of two entries with the same contribution, the earlier one comes first in \<open>ord\<close>.
\<close>

fun index_of :: "'a list \<Rightarrow> 'a \<Rightarrow> nat" where
  "index_of [] x = 0"
| "index_of (y # ys) x = (if x = y then 0 else Suc (index_of ys x))"

definition spec_field_order :: "string list" where
  "spec_field_order =
     [''Age'', ''Gender'', ''BMI'', ''Hypertension'', ''Heart Disease'', ''Smoking History'',
      ''HbA1c Level'', ''Blood Glucose'']"

definition features_order :: "string list" where
  "features_order = map feature_name features"

definition sorted_descending :: "feature_contribution list \<Rightarrow> bool" where
  "sorted_descending xs = sorted_wrt (\<lambda>a b. contribution b \<le> contribution a) xs"

definition ties_in_order :: "string list \<Rightarrow> feature_contribution list \<Rightarrow> bool" where
  "ties_in_order ord xs =
     sorted_wrt (\<lambda>a b. contribution a = contribution b \<longrightarrow>
                   index_of ord (name a) < index_of ord (name b)) xs"

text \<open>
  The flags as the specification gives them: an ordered table of eight rules, each a
  condition with its message, of which the messages of the rules that hold are listed
  in the order of the table. The severity of a message is its text before the colon.
\<close>

definition flag_rules :: "((RiskPredictionInput \<Rightarrow> bool) \<times> string) list" where
  "flag_rules =
     [(\<lambda>i. js_gt (blood_glucose_level i) 200 \<and> js_ge (HbA1c_level i) 6.5, msg_critical),
      (\<lambda>i. js_gt (HbA1c_level i) 6.9 \<and> js_ge (blood_glucose_level i) 120, msg_hba1c_glucose),
      (\<lambda>i. js_ge (blood_glucose_level i) 200 \<and> js_ge (HbA1c_level i) 5.9, msg_glucose_hba1c),
      (\<lambda>i. js_ge (HbA1c_level i) 6.5, msg_hba1c),
      (\<lambda>i. js_gt (blood_glucose_level i) 200, msg_glucose),
      (\<lambda>i. js_ge (bmi i) 35, msg_obesity),
      (\<lambda>i. js_ge (HbA1c_level i) 5.7 \<and> js_ge (blood_glucose_level i) 126, msg_prediabetes),
      (\<lambda>i. js_ge (age i) 45 \<and> js_ge (bmi i) 30, msg_age_obesity)]"

definition spec_flags :: "RiskPredictionInput \<Rightarrow> string list" where
  "spec_flags input = map snd (filter (\<lambda>rule. fst rule input) flag_rules)"

definition severity :: "string \<Rightarrow> string" where
  "severity m = takeWhile (\<lambda>c. c \<noteq> CHR '':'') m"

section \<open>Properties\<close>

subsection \<open>Auxiliary facts\<close>

lemmas RISK_THRESHOLDS =
  HbA1c_normal_def HbA1c_prediabetes_def HbA1c_diabetes_def HbA1c_highRisk_def
  bloodGlucose_normal_def bloodGlucose_prediabetes_def bloodGlucose_diabetes_def
  bloodGlucose_moderateRisk_def bmi_normal_def bmi_overweight_def bmi_obese_def
  age_increased_risk_def

lemma logPrediction_returns: "logPrediction env input result = Inr ()"
  by (cases env) (simp_all add: logPrediction_def)

lemma calculateRisk_Inr:
  "calculateRisk env input = Inr r \<Longrightarrow>
     prediction_result r =
       (if shouldForcePositive input then Positive
        else if applyRiskModifiers (calculateBaseRiskScore input) input > 0.5 then Positive
        else Negative) \<and>
     confidence_score r = calculateConfidenceScore input \<and>
     risk_level r = determineRiskLevel (applyRiskModifiers (calculateBaseRiskScore input) input) \<and>
     probability r = applyRiskModifiers (calculateBaseRiskScore input) input \<and>
     shap_values r = calculateSHAPValues input \<and>
     feature_contributions r = generateFeatureContributions (calculateSHAPValues input) input \<and>
     flagged_conditions r = checkFlaggedConditions input \<and>
     confidence_interval r =
       calculateConfidenceInterval (applyRiskModifiers (calculateBaseRiskScore input) input)
         (calculateConfidenceScore input)"
  unfolding calculateRisk_def Let_def logPrediction_returns by auto

lemma calculateRisk_returns: "\<exists>r. calculateRisk env input = Inr r"
  unfolding calculateRisk_def Let_def logPrediction_returns by simp

lemma js_gt_ge: "js_gt x c \<Longrightarrow> d \<le> c \<Longrightarrow> js_ge x d"
  by (cases x) auto

lemma base_steps_mono:
  "s \<le> base_HbA1c input s" "s \<le> base_bloodGlucose input s" "s \<le> base_bmi input s"
  "s \<le> base_age input s" "s \<le> base_hypertension input s" "s \<le> base_heart_disease input s"
  "s \<le> base_smoking input s" "s \<le> base_gender input s"
  by (simp_all add: base_HbA1c_def base_bloodGlucose_def base_bmi_def base_age_def
      base_hypertension_def base_heart_disease_def base_smoking_def base_gender_def
      split: HbA1c_branch_t.split)

lemma calculateBaseRiskScore_nonneg: "0 \<le> calculateBaseRiskScore input"
proof -
  have "0 \<le> base_HbA1c input 0" by (rule base_steps_mono)
  also have "\<dots> \<le> base_bloodGlucose input \<dots>" by (rule base_steps_mono)
  also have "\<dots> \<le> base_bmi input \<dots>" by (rule base_steps_mono)
  also have "\<dots> \<le> base_age input \<dots>" by (rule base_steps_mono)
  also have "\<dots> \<le> base_hypertension input \<dots>" by (rule base_steps_mono)
  also have "\<dots> \<le> base_heart_disease input \<dots>" by (rule base_steps_mono)
  also have "\<dots> \<le> base_smoking input \<dots>" by (rule base_steps_mono)
  also have "\<dots> \<le> base_gender input \<dots>" by (rule base_steps_mono)
  finally show ?thesis by (simp add: calculateBaseRiskScore_def Let_def)
qed

lemma calculateBaseRiskScore_le: "calculateBaseRiskScore input \<le> 1"
  unfolding calculateBaseRiskScore_def Let_def by (rule order_trans[OF min.cobounded2]) simp

lemma add_if_mono: "(0::rat) \<le> d \<Longrightarrow> s \<le> s' \<Longrightarrow> s \<le> (if c then s' + d else s')"
  by simp

lemma applyRiskModifiers_ge: "b \<le> 1 \<Longrightarrow> b \<le> applyRiskModifiers b input"
  unfolding applyRiskModifiers_def Let_def
  by (intro min.boundedI add_if_mono order_refl) simp_all

lemma applyRiskModifiers_le: "applyRiskModifiers b input \<le> 1"
  unfolding applyRiskModifiers_def Let_def by (rule order_trans[OF min.cobounded2]) simp

lemma modified_score_bounds:
  "0 \<le> applyRiskModifiers (calculateBaseRiskScore input) input"
  "applyRiskModifiers (calculateBaseRiskScore input) input \<le> 1"
proof -
  show "0 \<le> applyRiskModifiers (calculateBaseRiskScore input) input"
    using calculateBaseRiskScore_nonneg[of input] calculateBaseRiskScore_le[of input]
      applyRiskModifiers_ge[of "calculateBaseRiskScore input" input] by linarith
  show "applyRiskModifiers (calculateBaseRiskScore input) input \<le> 1"
    by (rule applyRiskModifiers_le)
qed

lemma clamp_bounds: "(0.5::rat) \<le> max 0.5 (min c 1.0) \<and> max 0.5 (min c 1.0) \<le> 1"
  by simp

lemma calculateConfidenceScore_bounds:
  "0.5 \<le> calculateConfidenceScore input \<and> calculateConfidenceScore input \<le> 1"
  unfolding calculateConfidenceScore_def Let_def by (rule clamp_bounds)

lemma base_score_example_values:
  "calculateBaseRiskScore critical_example = 1"
  "calculateBaseRiskScore healthy_example = 0"
  "calculateBaseRiskScore override_example = 0.2"
  by (simp_all add: calculateBaseRiskScore_def Let_def base_HbA1c_def HbA1c_branch_def
      base_bloodGlucose_def base_bmi_def base_age_def base_hypertension_def
      base_heart_disease_def base_smoking_def base_gender_def RISK_THRESHOLDS
      critical_example_def healthy_example_def override_example_def)

lemma modified_score_example_values:
  "applyRiskModifiers (calculateBaseRiskScore critical_example) critical_example = 1"
  "applyRiskModifiers (calculateBaseRiskScore healthy_example) healthy_example = 0"
  "applyRiskModifiers (calculateBaseRiskScore override_example) override_example = 0.2"
  unfolding base_score_example_values
  by (simp_all add: applyRiskModifiers_def Let_def
      critical_example_def healthy_example_def override_example_def)

lemma shouldForcePositive_iff:
  "shouldForcePositive input \<longleftrightarrow>
     (js_gt (HbA1c_level input) 6.9 \<and> js_ge (blood_glucose_level input) 120)
     \<or> (js_ge (blood_glucose_level input) 200 \<and> js_ge (HbA1c_level input) 5.9)
     \<or> js_ge (HbA1c_level input) 6.5
     \<or> js_ge (blood_glucose_level input) 126"
  unfolding shouldForcePositive_def RISK_THRESHOLDS by auto

lemma js_ge_mono: "js_ge x c \<Longrightarrow> d \<le> c \<Longrightarrow> js_ge x d"
  by (cases x) auto

lemma base_HbA1c_eq: "base_HbA1c input s = s + hba1cContribution input"
  using js_gt_ge[of "HbA1c_level input" HbA1c_highRisk HbA1c_diabetes]
  by (auto simp: base_HbA1c_def HbA1c_branch_def hba1cContribution_def RISK_THRESHOLDS)

lemma base_bloodGlucose_eq:
  "base_bloodGlucose input s =
     s + glucoseContribution input +
     (if js_ge (blood_glucose_level input) 120 \<and> \<not> js_ge (blood_glucose_level input) 126
      then 0.02 else 0)"
  by (cases "blood_glucose_level input")
    (auto simp: base_bloodGlucose_def glucoseContribution_def RISK_THRESHOLDS)

lemma base_other_eq:
  "base_bmi input s = s + bmiContribution input"
  "base_age input s = s + ageContribution input"
  "base_hypertension input s = s + hypertensionContribution input"
  "base_heart_disease input s = s + heartDiseaseContribution input"
  "base_smoking input s = s + smokingContribution input"
  "base_gender input s = s + genderContribution input"
  by (simp_all add: base_bmi_def bmiContribution_def base_age_def ageContribution_def
      base_hypertension_def hypertensionContribution_def base_heart_disease_def
      heartDiseaseContribution_def base_smoking_def smokingContribution_def
      base_gender_def genderContribution_def)

lemma contributions_nonneg:
  "0 \<le> hba1cContribution input" "0 \<le> glucoseContribution input" "0 \<le> bmiContribution input"
  "0 \<le> ageContribution input" "0 \<le> hypertensionContribution input"
  "0 \<le> heartDiseaseContribution input" "0 \<le> smokingContribution input"
  "0 \<le> genderContribution input"
  by (simp_all add: hba1cContribution_def glucoseContribution_def bmiContribution_def
      ageContribution_def hypertensionContribution_def heartDiseaseContribution_def
      smokingContribution_def genderContribution_def)

lemma totalContribution_nonneg: "0 \<le> totalContribution input"
  unfolding totalContribution_def
  using contributions_nonneg[of input] by linarith

lemma calculateBaseRiskScore_eq:
  "calculateBaseRiskScore input =
     min (totalContribution input +
          (if js_ge (blood_glucose_level input) 120 \<and> \<not> js_ge (blood_glucose_level input) 126
           then 0.02 else 0)) 1"
  unfolding calculateBaseRiskScore_def Let_def base_HbA1c_eq base_bloodGlucose_eq base_other_eq
    totalContribution_def
  by (simp add: algebra_simps)

lemma calculateBaseRiskScore_zero_iff:
  "calculateBaseRiskScore input = 0 \<longleftrightarrow> totalContribution input = 0"
proof -
  have "js_ge (blood_glucose_level input) 120 \<Longrightarrow> 0 < glucoseContribution input"
    using js_ge_mono[of "blood_glucose_level input" 120 100]
    by (simp add: glucoseContribution_def RISK_THRESHOLDS)
  then have "js_ge (blood_glucose_level input) 120 \<Longrightarrow> 0 < totalContribution input"
    unfolding totalContribution_def using contributions_nonneg[of input] by linarith
  with totalContribution_nonneg[of input] show ?thesis
    unfolding calculateBaseRiskScore_eq by (auto simp: min_def)
qed

lemma stage_D_agrees_elsewhere:
  "base_HbA1c input s - s = hba1cContribution input"
  "js_ge (blood_glucose_level input) 120 \<and> \<not> js_ge (blood_glucose_level input) 126 \<or>
     base_bloodGlucose input s - s = glucoseContribution input"
  "base_bmi input s - s = bmiContribution input"
  "base_age input s - s = ageContribution input"
  "base_hypertension input s - s = hypertensionContribution input"
  "base_heart_disease input s - s = heartDiseaseContribution input"
  "base_smoking input s - s = smokingContribution input"
  "base_gender input s - s = genderContribution input"
  by (simp_all add: base_HbA1c_eq base_bloodGlucose_eq base_other_eq)

lemma sum_list_insort_key:
  "sum_list (map g (insort_key f x xs)) = (g x :: rat) + sum_list (map g xs)"
  by (induction xs) auto

lemma sum_list_sort_key: "sum_list (map g (sort_key f xs)) = (sum_list (map g xs) :: rat)"
  by (induction xs) (simp_all add: sum_list_insort_key)

lemma or_zero_Some: "or_zero (Some x) = x"
  by (simp add: or_zero_def)

lemma unsorted_contributions:
  "map contribution
     (map (\<lambda>f. \<lparr>name = feature_name f,
                 contribution = or_zero (shap_lookup sv (feature_key f)),
                 description = generateFeatureDescription f input,
                 risk_factor = isRiskFactor f input\<rparr>) features) =
   [shap_hbA1c_level sv, shap_blood_glucose_level sv, shap_bmi sv, shap_age sv,
    shap_hypertension sv, shap_heart_disease sv, shap_smoking_history sv, shap_gender sv]"
  by (simp add: features_def shap_lookup_def or_zero_Some)

lemma sum_shares:
  "sum_list (map contribution (generateFeatureContributions sv input)) =
     shap_hbA1c_level sv + shap_blood_glucose_level sv + shap_bmi sv + shap_age sv +
     shap_hypertension sv + shap_heart_disease sv + shap_smoking_history sv + shap_gender sv"
  unfolding generateFeatureContributions_def sum_list_sort_key unsorted_contributions
  by simp

lemma set_shares:
  "set (map contribution (generateFeatureContributions sv input)) =
     {shap_hbA1c_level sv, shap_blood_glucose_level sv, shap_bmi sv, shap_age sv,
      shap_hypertension sv, shap_heart_disease sv, shap_smoking_history sv, shap_gender sv}"
proof -
  have "set (map contribution (generateFeatureContributions sv input)) =
        set (map contribution (map (\<lambda>f. \<lparr>name = feature_name f,
                 contribution = or_zero (shap_lookup sv (feature_key f)),
                 description = generateFeatureDescription f input,
                 risk_factor = isRiskFactor f input\<rparr>) features))"
    by (simp only: generateFeatureContributions_def set_map set_sort)
  then show ?thesis unfolding unsorted_contributions by simp
qed

lemma calculateConfidenceInterval_contains:
  "0 \<le> p \<Longrightarrow> p \<le> 1 \<Longrightarrow> c \<le> 1 \<Longrightarrow>
     lower (calculateConfidenceInterval p c) \<le> p \<and> p \<le> upper (calculateConfidenceInterval p c)"
  by (simp add: calculateConfidenceInterval_def Let_def)

lemma determineRiskLevel_high: "(determineRiskLevel s = High \<or> determineRiskLevel s = Critical) \<longleftrightarrow> 0.6 \<le> s"
  by (simp add: determineRiskLevel_def)

lemma insort_key_lex:
  "sorted_wrt (\<lambda>a b. f a \<le> f b \<and> (f a = f b \<longrightarrow> idx a < idx b)) ys \<Longrightarrow>
   \<forall>y\<in>set ys. idx x < (idx y :: nat) \<Longrightarrow>
   sorted_wrt (\<lambda>a b. f a \<le> f b \<and> (f a = f b \<longrightarrow> idx a < idx b)) (insort_key f x ys)"
  by (induction ys) (auto simp: set_insort_key)

lemma sort_key_lex:
  "sorted_wrt (\<lambda>a b. idx a < (idx b :: nat)) xs \<Longrightarrow>
   sorted_wrt (\<lambda>a b. f a \<le> f b \<and> (f a = f b \<longrightarrow> idx a < idx b)) (sort_key f xs)"
  by (induction xs) (auto intro!: insort_key_lex)

lemma features_in_order:
  "sorted_wrt (\<lambda>a b. index_of features_order (name a) < index_of features_order (name b))
     (map (\<lambda>f. \<lparr>name = feature_name f,
                 contribution = or_zero (shap_lookup sv (feature_key f)),
                 description = generateFeatureDescription f input,
                 risk_factor = isRiskFactor f input\<rparr>) features)"
  by (simp add: features_def features_order_def)

lemma generateFeatureContributions_sorted:
  "sorted_descending (generateFeatureContributions sv input) \<and>
   ties_in_order features_order (generateFeatureContributions sv input)"
proof -
  let ?idx = "\<lambda>a. index_of features_order (name a)"
  let ?f = "\<lambda>a. - contribution a"
  have s: "sorted_wrt (\<lambda>a b. ?f a \<le> ?f b \<and> (?f a = ?f b \<longrightarrow> ?idx a < ?idx b))
          (generateFeatureContributions sv input)"
    unfolding generateFeatureContributions_def
    by (rule sort_key_lex[where idx = ?idx and f = ?f]) (rule features_in_order)
  have "sorted_descending (generateFeatureContributions sv input)"
    unfolding sorted_descending_def
    by (rule sorted_wrt_mono_rel[OF _ s]) simp
  moreover have "ties_in_order features_order (generateFeatureContributions sv input)"
    unfolding ties_in_order_def
    by (rule sorted_wrt_mono_rel[OF _ s]) simp
  ultimately show ?thesis by simp
qed

lemma push_if: "(if c then fl @ [m] else fl) = fl @ (if c then [m] else [])"
  by simp

lemma filter_Cons_append: "filter P (x # xs) = (if P x then [x] else []) @ filter P xs"
  by simp

lemma map_if_single: "map f (if c then [x] else []) = (if c then [f x] else [])"
  by simp

lemma checkFlaggedConditions_concat:
  "checkFlaggedConditions input =
     (if js_gt (blood_glucose_level input) 200 \<and> js_ge (HbA1c_level input) 6.5
      then [msg_critical] else []) @
     (if js_gt (HbA1c_level input) 6.9 \<and> js_ge (blood_glucose_level input) 120
      then [msg_hba1c_glucose] else []) @
     (if js_ge (blood_glucose_level input) 200 \<and> js_ge (HbA1c_level input) 5.9
      then [msg_glucose_hba1c] else []) @
     (if js_ge (HbA1c_level input) 6.5 then [msg_hba1c] else []) @
     (if js_gt (blood_glucose_level input) 200 then [msg_glucose] else []) @
     (if js_ge (bmi input) 35 then [msg_obesity] else []) @
     (if js_ge (HbA1c_level input) 5.7 \<and> js_ge (blood_glucose_level input) 126
      then [msg_prediabetes] else []) @
     (if js_ge (age input) 45 \<and> js_ge (bmi input) 30 then [msg_age_obesity] else [])"
  unfolding checkFlaggedConditions_def Let_def
  apply (simp only: push_if append_Nil cong del: if_weak_cong)
  apply (simp only: append_assoc)
  done

lemma spec_flags_concat:
  "spec_flags input =
     (if js_gt (blood_glucose_level input) 200 \<and> js_ge (HbA1c_level input) 6.5
      then [msg_critical] else []) @
     (if js_gt (HbA1c_level input) 6.9 \<and> js_ge (blood_glucose_level input) 120
      then [msg_hba1c_glucose] else []) @
     (if js_ge (blood_glucose_level input) 200 \<and> js_ge (HbA1c_level input) 5.9
      then [msg_glucose_hba1c] else []) @
     (if js_ge (HbA1c_level input) 6.5 then [msg_hba1c] else []) @
     (if js_gt (blood_glucose_level input) 200 then [msg_glucose] else []) @
     (if js_ge (bmi input) 35 then [msg_obesity] else []) @
     (if js_ge (HbA1c_level input) 5.7 \<and> js_ge (blood_glucose_level input) 126
      then [msg_prediabetes] else []) @
     (if js_ge (age input) 45 \<and> js_ge (bmi input) 30 then [msg_age_obesity] else [])"
  unfolding spec_flags_def flag_rules_def
  by (simp only: filter_Cons_append filter.simps(1) map_append map_if_single fst_conv snd_conv
      list.map(1) append_Nil2)

lemma checkFlaggedConditions_spec: "checkFlaggedConditions input = spec_flags input"
  by (simp only: checkFlaggedConditions_concat spec_flags_concat)

lemma flag_severities:
  "map (\<lambda>rule. severity (snd rule)) flag_rules =
     [''CRITICAL'', ''HIGH RISK'', ''HIGH RISK'', ''HIGH RISK'', ''HIGH RISK'', ''HIGH RISK'',
      ''MODERATE RISK'', ''MODERATE RISK'']"
  by (simp add: flag_rules_def severity_def msg_critical_def msg_hba1c_glucose_def
      msg_glucose_hba1c_def msg_hba1c_def msg_glucose_def msg_obesity_def msg_prediabetes_def
      msg_age_obesity_def)

lemma maximum_flags: "checkFlaggedConditions maximum_example = map snd flag_rules"
  unfolding checkFlaggedConditions_concat
  by (simp add: maximum_example_def flag_rules_def)

lemma total_example_values:
  "totalContribution critical_example = 1.1"
  "totalContribution healthy_example = 0"
  by (simp_all add: totalContribution_def hba1cContribution_def glucoseContribution_def
      bmiContribution_def ageContribution_def hypertensionContribution_def
      heartDiseaseContribution_def smokingContribution_def genderContribution_def
      RISK_THRESHOLDS critical_example_def healthy_example_def)

lemma critical_shap_values:
  "calculateSHAPValues critical_example =
     \<lparr>shap_bmi = 3 / 22, shap_hbA1c_level = 7 / 22, shap_blood_glucose_level = 5 / 22,
      shap_age = 1 / 11, shap_hypertension = 3 / 22, shap_heart_disease = 0,
      shap_smoking_history = 1 / 22, shap_gender = 1 / 22\<rparr>"
  unfolding calculateSHAPValues_def Let_def base_score_example_values total_example_values
  by (simp add: hba1cContribution_def glucoseContribution_def
      bmiContribution_def ageContribution_def hypertensionContribution_def
      heartDiseaseContribution_def smokingContribution_def genderContribution_def
      RISK_THRESHOLDS critical_example_def)

lemma critical_contributions:
  "generateFeatureContributions (calculateSHAPValues critical_example) critical_example =
     [\<lparr>name = ''HbA1c Level'', contribution = 7 / 22,
       description = ''Critical: HbA1c indicates diabetes'', risk_factor = True\<rparr>,
      \<lparr>name = ''Blood Glucose'', contribution = 5 / 22,
       description = ''Critical: Blood glucose indicates diabetes'', risk_factor = True\<rparr>,
      \<lparr>name = ''BMI'', contribution = 3 / 22,
       description = ''High: BMI indicates obesity'', risk_factor = True\<rparr>,
      \<lparr>name = ''Hypertension'', contribution = 3 / 22,
       description = ''High: Hypertension is a diabetes risk factor'', risk_factor = True\<rparr>,
      \<lparr>name = ''Age'', contribution = 1 / 11,
       description = ''Moderate: Age increases diabetes risk'', risk_factor = True\<rparr>,
      \<lparr>name = ''Smoking History'', contribution = 1 / 22,
       description = ''Moderate: Former smoking may affect risk'', risk_factor = True\<rparr>,
      \<lparr>name = ''Gender'', contribution = 1 / 22,
       description = ''Moderate: Male gender has slightly higher risk'', risk_factor = True\<rparr>,
      \<lparr>name = ''Heart Disease'', contribution = 0,
       description = ''Low: No heart disease'', risk_factor = False\<rparr>]"
  unfolding critical_shap_values
  by (simp add: generateFeatureContributions_def features_def shap_lookup_def or_zero_def
      generateFeatureDescription_def isRiskFactor_def critical_example_def)

subsection \<open>Classification\<close>

text \<open>
  Claim C1. For every input, the label of the result is Positive exactly when one of
  the four override conditions holds (HbA1c > 6.9 with glucose >= 120; glucose >= 200 with
  HbA1c >= 5.9; HbA1c >= 6.5; glucose >= 126) or the final probability exceeds 0.5, and
  Negative otherwise. Some input with a probability of at most 0.5 is labelled Positive.
\<close>

theorem C1_prediction_label:
  "(calculateRisk env input = Inr r \<longrightarrow>
      (prediction_result r = Positive \<longleftrightarrow>
         (js_gt (HbA1c_level input) 6.9 \<and> js_ge (blood_glucose_level input) 120)
         \<or> (js_ge (blood_glucose_level input) 200 \<and> js_ge (HbA1c_level input) 5.9)
         \<or> js_ge (HbA1c_level input) 6.5
         \<or> js_ge (blood_glucose_level input) 126
         \<or> probability r > 0.5)
      \<and> (prediction_result r = Negative \<longleftrightarrow>
         \<not> ((js_gt (HbA1c_level input) 6.9 \<and> js_ge (blood_glucose_level input) 120)
         \<or> (js_ge (blood_glucose_level input) 200 \<and> js_ge (HbA1c_level input) 5.9)
         \<or> js_ge (HbA1c_level input) 6.5
         \<or> js_ge (blood_glucose_level input) 126
         \<or> probability r > 0.5)))
   \<and> (\<exists>input' r'. calculateRisk env input' = Inr r' \<and> probability r' \<le> 0.5
         \<and> prediction_result r' = Positive)"
proof (intro conjI impI)
  assume h: "calculateRisk env input = Inr r"
  note f = calculateRisk_Inr[OF h]
  show "prediction_result r = Positive \<longleftrightarrow>
         (js_gt (HbA1c_level input) 6.9 \<and> js_ge (blood_glucose_level input) 120)
         \<or> (js_ge (blood_glucose_level input) 200 \<and> js_ge (HbA1c_level input) 5.9)
         \<or> js_ge (HbA1c_level input) 6.5
         \<or> js_ge (blood_glucose_level input) 126
         \<or> probability r > 0.5"
    using f shouldForcePositive_iff[of input] by auto
  show "prediction_result r = Negative \<longleftrightarrow>
         \<not> ((js_gt (HbA1c_level input) 6.9 \<and> js_ge (blood_glucose_level input) 120)
         \<or> (js_ge (blood_glucose_level input) 200 \<and> js_ge (HbA1c_level input) 5.9)
         \<or> js_ge (HbA1c_level input) 6.5
         \<or> js_ge (blood_glucose_level input) 126
         \<or> probability r > 0.5)"
    using f shouldForcePositive_iff[of input] by auto
next
  obtain r' where h: "calculateRisk env override_example = Inr r'"
    using calculateRisk_returns by blast
  note f = calculateRisk_Inr[OF h]
  have p: "probability r' = 0.2"
    using f by (simp add: modified_score_example_values)
  have "shouldForcePositive override_example"
    by (simp add: shouldForcePositive_iff override_example_def)
  with f have "prediction_result r' = Positive" by simp
  with h p show "\<exists>input' r'. calculateRisk env input' = Inr r' \<and> probability r' \<le> 0.5
         \<and> prediction_result r' = Positive"
    by (intro exI[of _ override_example] exI[of _ r']) simp
qed

theorem C1_prediction_label_witness:
  "\<exists>r. calculateRisk Insert_ok override_example = Inr r \<and> prediction_result r = Positive
       \<and> probability r \<le> 0.5"
proof -
  obtain r where h: "calculateRisk Insert_ok override_example = Inr r"
    using calculateRisk_returns by blast
  have p: "probability r = 0.2"
    using calculateRisk_Inr[OF h] by (simp add: modified_score_example_values)
  from C1_prediction_label[of Insert_ok override_example r] h
  have "prediction_result r = Positive" by (simp add: override_example_def)
  with h p show ?thesis by simp
qed

subsection \<open>Ranges\<close>

text \<open>
  Claim C2. Whenever the engine returns a result, its probability lies in [0, 1] and
  its confidence score lies in [0.5, 1.0].
\<close>

theorem C2_ranges:
  "calculateRisk env input = Inr r \<Longrightarrow>
     0 \<le> probability r \<and> probability r \<le> 1 \<and>
     0.5 \<le> confidence_score r \<and> confidence_score r \<le> 1"
proof -
  assume h: "calculateRisk env input = Inr r"
  note f = calculateRisk_Inr[OF h]
  with modified_score_bounds[of input] calculateConfidenceScore_bounds[of input]
  show ?thesis by simp
qed

theorem C2_ranges_witness:
  "\<exists>r. calculateRisk Insert_ok critical_example = Inr r \<and>
       0 \<le> probability r \<and> probability r \<le> 1 \<and>
       0.5 \<le> confidence_score r \<and> confidence_score r \<le> 1"
proof -
  obtain r where h: "calculateRisk Insert_ok critical_example = Inr r"
    using calculateRisk_returns by blast
  from C2_ranges[OF h] h show ?thesis by blast
qed

subsection \<open>Rejection of inputs\<close>

text \<open>
  Claim C3. As stated: the assessment is rejected exactly when the patient reference is
  empty or a numeric field is not finite, and returns a result otherwise. The method has
  no validation step, and at \<open>invalid_example\<close> (empty identifier, BMI infinite,
  HbA1c NaN) it returns a result: the statement fails there.
\<close>

theorem C3_rejects_invalid_counterexample:
  "\<not> (isl (calculateRisk Insert_ok invalid_example) \<longleftrightarrow> invalid_input invalid_example)"
proof -
  have "invalid_input invalid_example"
    by (simp add: invalid_input_def invalid_example_def)
  moreover have "\<not> isl (calculateRisk Insert_ok invalid_example)"
    using calculateRisk_returns[of Insert_ok invalid_example] by auto
  ultimately show ?thesis by simp
qed

text \<open>
  Claim C3, amended. The assessment never rejects: for every input, with or without a
  patient reference, with finite or non-finite, in-range or out-of-range numeric fields,
  and whatever happens to the persistence call, it does not throw and returns a result.
\<close>

theorem C3_never_rejects:
  "(\<exists>r. calculateRisk env input = Inr r) \<and> \<not> isl (calculateRisk env input)"
  using calculateRisk_returns[of env input] by auto

theorem C3_never_rejects_witness:
  "invalid_input invalid_example \<and> (\<exists>r. calculateRisk Insert_error invalid_example = Inr r)"
  using C3_never_rejects[of Insert_error invalid_example]
  by (simp add: invalid_input_def invalid_example_def)

subsection \<open>Attribution\<close>

text \<open>
  Claim C4. As stated: for every feature, the contribution that Stage D computes before
  normalising equals the one Stage A adds to the base score. For blood glucose the two
  differ: at \<open>glucose_example\<close> (120 mg/dL) Stage A adds 0.12 through its branch for
  \<^verbatim>\<open>moderateRisk\<close>, a branch that \<^verbatim>\<open>calculateSHAPValues\<close> does not have, so
  Stage D computes 0.10. (\<open>stage_D_agrees_elsewhere\<close> shows that the stages agree on
  every other feature, and on blood glucose outside [120, 126).)
\<close>

theorem C4_glucose_divergence:
  "base_bloodGlucose glucose_example 0 - 0 = 0.12 \<and> glucoseContribution glucose_example = 0.10"
  by (simp add: base_bloodGlucose_def glucoseContribution_def glucose_example_def RISK_THRESHOLDS)

text \<open>
  Claim C5. Whenever the engine returns a result: if the total of the per-feature
  contributions is positive, the shares of the attribution list sum to 1; if the total
  is 0, every share is 0. The total is never negative, and it is 0 exactly when the
  base score of Stage A is 0.
\<close>

theorem C5_shares:
  "calculateRisk env input = Inr r \<Longrightarrow>
     (0 < totalContribution input \<longrightarrow>
        sum_list (map contribution (feature_contributions r)) = 1) \<and>
     (totalContribution input = 0 \<longrightarrow>
        (\<forall>f \<in> set (feature_contributions r). contribution f = 0)) \<and>
     (0 < totalContribution input \<or> totalContribution input = 0) \<and>
     (totalContribution input = 0 \<longleftrightarrow> calculateBaseRiskScore input = 0)"
proof -
  assume h: "calculateRisk env input = Inr r"
  note f = calculateRisk_Inr[OF h]
  have fc: "feature_contributions r = generateFeatureContributions (calculateSHAPValues input) input"
    using f by simp
  have pos: "0 < totalContribution input \<longrightarrow>
        sum_list (map contribution (feature_contributions r)) = 1"
  proof
    assume t: "0 < totalContribution input"
    then have "calculateBaseRiskScore input \<noteq> 0"
      by (simp add: calculateBaseRiskScore_zero_iff)
    with t have sv: "calculateSHAPValues input =
        \<lparr>shap_bmi = bmiContribution input / totalContribution input,
         shap_hbA1c_level = hba1cContribution input / totalContribution input,
         shap_blood_glucose_level = glucoseContribution input / totalContribution input,
         shap_age = ageContribution input / totalContribution input,
         shap_hypertension = hypertensionContribution input / totalContribution input,
         shap_heart_disease = heartDiseaseContribution input / totalContribution input,
         shap_smoking_history = smokingContribution input / totalContribution input,
         shap_gender = genderContribution input / totalContribution input\<rparr>"
      by (simp add: calculateSHAPValues_def Let_def)
    have "sum_list (map contribution (feature_contributions r)) =
          hba1cContribution input / totalContribution input +
          glucoseContribution input / totalContribution input +
          bmiContribution input / totalContribution input +
          ageContribution input / totalContribution input +
          hypertensionContribution input / totalContribution input +
          heartDiseaseContribution input / totalContribution input +
          smokingContribution input / totalContribution input +
          genderContribution input / totalContribution input"
      unfolding fc sum_shares sv by simp
    also have "\<dots> =
          (hba1cContribution input + glucoseContribution input + bmiContribution input +
           ageContribution input + hypertensionContribution input +
           heartDiseaseContribution input + smokingContribution input +
           genderContribution input) / totalContribution input"
      by (simp only: add_divide_distrib)
    also have "\<dots> = totalContribution input / totalContribution input"
      by (simp only: totalContribution_def)
    finally have "sum_list (map contribution (feature_contributions r)) =
          totalContribution input / totalContribution input" .
    with t show "sum_list (map contribution (feature_contributions r)) = 1" by simp
  qed
  have zero: "totalContribution input = 0 \<longrightarrow>
        (\<forall>f \<in> set (feature_contributions r). contribution f = 0)"
  proof (intro impI ballI)
    fix x assume t: "totalContribution input = 0" and x: "x \<in> set (feature_contributions r)"
    from t have sv: "calculateSHAPValues input = zero_shap_values"
      by (simp add: calculateSHAPValues_def Let_def)
    from x have "contribution x \<in> set (map contribution (feature_contributions r))" by simp
    then show "contribution x = 0"
      unfolding fc set_shares sv by (simp add: zero_shap_values_def)
  qed
  from pos zero totalContribution_nonneg[of input] calculateBaseRiskScore_zero_iff[of input]
  show ?thesis by (simp add: less_le)
qed

theorem C5_shares_witness:
  "(\<exists>r. calculateRisk Insert_ok critical_example = Inr r \<and>
        0 < totalContribution critical_example \<and>
        sum_list (map contribution (feature_contributions r)) = 1) \<and>
   (\<exists>r. calculateRisk Insert_ok healthy_example = Inr r \<and>
        totalContribution healthy_example = 0 \<and>
        (\<forall>f \<in> set (feature_contributions r). contribution f = 0))"
proof -
  obtain r1 where h1: "calculateRisk Insert_ok critical_example = Inr r1"
    using calculateRisk_returns by blast
  obtain r2 where h2: "calculateRisk Insert_ok healthy_example = Inr r2"
    using calculateRisk_returns by blast
  have t1: "0 < totalContribution critical_example" by (simp add: total_example_values)
  have t2: "totalContribution healthy_example = 0" by (simp add: total_example_values)
  from C5_shares[OF h1] t1 have "sum_list (map contribution (feature_contributions r1)) = 1"
    by blast
  moreover from C5_shares[OF h2] t2
  have "\<forall>f \<in> set (feature_contributions r2). contribution f = 0" by blast
  ultimately show ?thesis using h1 h2 t1 t2 by blast
qed

text \<open>
  Claim C6. As stated: the attribution list is sorted by descending share, and entries
  with equal shares stand in the order of the input fields of the specification's data
  model (age, sex, bmi, hypertension, heart disease, smoking status, HbA1c, glucose). At
  \<open>critical_example\<close> the shares of smoking history and gender are both 1/22 and
  smoking history comes first, against that order: the statement fails there.
\<close>

theorem C6_spec_order_counterexample:
  "map name (feature_contributions (projr (calculateRisk Insert_ok critical_example))) =
     [''HbA1c Level'', ''Blood Glucose'', ''BMI'', ''Hypertension'', ''Age'',
      ''Smoking History'', ''Gender'', ''Heart Disease'']
   \<and> map contribution (feature_contributions (projr (calculateRisk Insert_ok critical_example))) =
     [7 / 22, 5 / 22, 3 / 22, 3 / 22, 1 / 11, 1 / 22, 1 / 22, 0]
   \<and> \<not> (sorted_descending (feature_contributions (projr (calculateRisk Insert_ok critical_example)))
        \<and> ties_in_order spec_field_order
            (feature_contributions (projr (calculateRisk Insert_ok critical_example))))"
proof -
  obtain r where h: "calculateRisk Insert_ok critical_example = Inr r"
    using calculateRisk_returns by blast
  have fc: "feature_contributions (projr (calculateRisk Insert_ok critical_example)) =
      generateFeatureContributions (calculateSHAPValues critical_example) critical_example"
    using calculateRisk_Inr[OF h] h by simp
  show ?thesis
    unfolding fc critical_contributions
    by (simp add: ties_in_order_def spec_field_order_def)
qed

text \<open>
  Claim C6, amended. Whenever the engine returns a result, its attribution list is
  sorted by descending share, and entries with equal shares stand in the order of the
  array \<^verbatim>\<open>features\<close>: HbA1c Level, Blood Glucose, BMI, Age, Hypertension, Heart
  Disease, Smoking History, Gender.
\<close>

theorem C6_sorted_stable:
  "calculateRisk env input = Inr r \<Longrightarrow>
     sorted_descending (feature_contributions r) \<and>
     ties_in_order features_order (feature_contributions r) \<and>
     features_order =
       [''HbA1c Level'', ''Blood Glucose'', ''BMI'', ''Age'', ''Hypertension'', ''Heart Disease'',
        ''Smoking History'', ''Gender'']"
proof -
  assume h: "calculateRisk env input = Inr r"
  have fc: "feature_contributions r =
      generateFeatureContributions (calculateSHAPValues input) input"
    using calculateRisk_Inr[OF h] by simp
  show ?thesis
    unfolding fc using generateFeatureContributions_sorted
    by (simp add: features_order_def features_def)
qed

theorem C6_sorted_stable_witness:
  "\<exists>r. calculateRisk Insert_ok critical_example = Inr r \<and>
       sorted_descending (feature_contributions r) \<and>
       ties_in_order features_order (feature_contributions r) \<and>
       map name (feature_contributions r) =
         [''HbA1c Level'', ''Blood Glucose'', ''BMI'', ''Hypertension'', ''Age'',
          ''Smoking History'', ''Gender'', ''Heart Disease'']"
proof -
  obtain r where h: "calculateRisk Insert_ok critical_example = Inr r"
    using calculateRisk_returns by blast
  have "feature_contributions r =
      generateFeatureContributions (calculateSHAPValues critical_example) critical_example"
    using calculateRisk_Inr[OF h] by simp
  then have "map name (feature_contributions r) =
         [''HbA1c Level'', ''Blood Glucose'', ''BMI'', ''Hypertension'', ''Age'',
          ''Smoking History'', ''Gender'', ''Heart Disease'']"
    unfolding critical_contributions by simp
  with C6_sorted_stable[OF h] h show ?thesis by simp
qed

subsection \<open>Flags\<close>

text \<open>
  Claim C7. For every input, the list of flags is exactly the list of the messages of
  those of the eight rules that hold, in the order of the table: (1) glucose > 200 and
  HbA1c >= 6.5, CRITICAL; (2) HbA1c > 6.9 and glucose >= 120, HIGH RISK; (3) glucose >= 200
  and HbA1c >= 5.9, HIGH RISK; (4) HbA1c >= 6.5, HIGH RISK; (5) glucose > 200, HIGH RISK;
  (6) BMI >= 35, HIGH RISK; (7) HbA1c >= 5.7 and glucose >= 126, MODERATE RISK; (8) age >= 45
  and BMI >= 30, MODERATE RISK. No other flag appears, and several can appear together:
  at \<open>maximum_example\<close> all eight do.
\<close>

theorem C7_flags:
  "checkFlaggedConditions input = spec_flags input
   \<and> (calculateRisk env input = Inr r \<longrightarrow> flagged_conditions r = spec_flags input)
   \<and> set (checkFlaggedConditions input) \<subseteq> set (map snd flag_rules)
   \<and> map (\<lambda>rule. severity (snd rule)) flag_rules =
       [''CRITICAL'', ''HIGH RISK'', ''HIGH RISK'', ''HIGH RISK'', ''HIGH RISK'', ''HIGH RISK'',
        ''MODERATE RISK'', ''MODERATE RISK'']
   \<and> checkFlaggedConditions maximum_example = map snd flag_rules
   \<and> length flag_rules = 8"
proof -
  have a: "checkFlaggedConditions input = spec_flags input"
    by (rule checkFlaggedConditions_spec)
  have b: "calculateRisk env input = Inr r \<longrightarrow> flagged_conditions r = spec_flags input"
    using calculateRisk_Inr[of env input r] a by simp
  have c: "set (checkFlaggedConditions input) \<subseteq> set (map snd flag_rules)"
    unfolding a spec_flags_def by auto
  have d: "length flag_rules = 8" by (simp add: flag_rules_def)
  from a b c d flag_severities maximum_flags show ?thesis by blast
qed

theorem C7_flags_witness:
  "\<exists>r. calculateRisk Insert_ok critical_example = Inr r \<and>
       flagged_conditions r = [msg_critical, msg_hba1c_glucose, msg_glucose_hba1c, msg_hba1c,
                               msg_glucose, msg_prediabetes, msg_age_obesity]"
proof -
  obtain r where h: "calculateRisk Insert_ok critical_example = Inr r"
    using calculateRisk_returns by blast
  have "spec_flags critical_example =
      [msg_critical, msg_hba1c_glucose, msg_glucose_hba1c, msg_hba1c,
       msg_glucose, msg_prediabetes, msg_age_obesity]"
    unfolding spec_flags_concat by (simp add: critical_example_def)
  with C7_flags[of critical_example Insert_ok r] h show ?thesis by simp
qed

subsection \<open>The HbA1c block of the base score\<close>

text \<open>
  Claim C8. In Stage A the branch of the HbA1c block for "> 6.9", which would add 0.30,
  is never taken, because the branch for ">= 6.5" is tested before it: the HbA1c block
  adds 0, 0.15 or 0.35 to the score, never 0.30.
\<close>

theorem C8_highRisk_branch_unreachable:
  "HbA1c_branch input \<noteq> HighRisk_branch
   \<and> \<not> (\<not> js_ge (HbA1c_level input) HbA1c_diabetes \<and> js_gt (HbA1c_level input) HbA1c_highRisk)
   \<and> (base_HbA1c input score - score = 0 \<or> base_HbA1c input score - score = 0.15
        \<or> base_HbA1c input score - score = 0.35)
   \<and> base_HbA1c input score - score \<noteq> 0.30"
proof -
  have u: "\<not> (\<not> js_ge (HbA1c_level input) HbA1c_diabetes \<and> js_gt (HbA1c_level input) HbA1c_highRisk)"
    using js_gt_ge[of "HbA1c_level input" HbA1c_highRisk HbA1c_diabetes]
    by (auto simp: RISK_THRESHOLDS)
  then have b: "HbA1c_branch input \<noteq> HighRisk_branch"
    by (auto simp: HbA1c_branch_def)
  from b have "base_HbA1c input score - score = 0 \<or> base_HbA1c input score - score = 0.15
        \<or> base_HbA1c input score - score = 0.35"
    by (cases "HbA1c_branch input") (simp_all add: base_HbA1c_def)
  then have "base_HbA1c input score - score \<noteq> 0.30" by auto
  with u b \<open>base_HbA1c input score - score = 0 \<or> base_HbA1c input score - score = 0.15
        \<or> base_HbA1c input score - score = 0.35\<close> show ?thesis by blast
qed

theorem C8_highRisk_branch_unreachable_witness:
  "HbA1c_branch critical_example = Diabetes_branch \<and>
   base_HbA1c critical_example 0 - 0 = 0.35"
  using C8_highRisk_branch_unreachable[of critical_example 0]
  by (simp add: HbA1c_branch_def base_HbA1c_def critical_example_def RISK_THRESHOLDS)

subsection \<open>Confidence interval\<close>

text \<open>
  Claim C9. Whenever the engine returns a result, the confidence interval is
  lower = max(0, probability - margin) and upper = min(1, probability + margin) with
  margin = (1 - confidenceScore) * 0.5, and lower <= probability <= upper.
\<close>

theorem C9_interval_contains_probability:
  "calculateRisk env input = Inr r \<Longrightarrow>
     lower (confidence_interval r) = max 0 (probability r - (1 - confidence_score r) * 0.5) \<and>
     upper (confidence_interval r) = min 1 (probability r + (1 - confidence_score r) * 0.5) \<and>
     lower (confidence_interval r) \<le> probability r \<and>
     probability r \<le> upper (confidence_interval r)"
proof -
  assume h: "calculateRisk env input = Inr r"
  note f = calculateRisk_Inr[OF h]
  have ci: "confidence_interval r = calculateConfidenceInterval (probability r) (confidence_score r)"
    using f by simp
  have "0 \<le> probability r" "probability r \<le> 1" "confidence_score r \<le> 1"
    using f modified_score_bounds[of input] calculateConfidenceScore_bounds[of input] by simp_all
  from calculateConfidenceInterval_contains[OF this] ci
  show ?thesis by (simp add: calculateConfidenceInterval_def Let_def)
qed

theorem C9_interval_contains_probability_witness:
  "\<exists>r. calculateRisk Insert_ok override_example = Inr r \<and>
     lower (confidence_interval r) = 0.1 \<and> probability r = 0.2 \<and> upper (confidence_interval r) = 0.3"
proof -
  obtain r where h: "calculateRisk Insert_ok override_example = Inr r"
    using calculateRisk_returns by blast
  note f = calculateRisk_Inr[OF h]
  have p: "probability r = 0.2" using f by (simp add: modified_score_example_values)
  have c: "confidence_score r = 0.8"
    using f by (simp add: calculateConfidenceScore_def Let_def override_example_def)
  from C9_interval_contains_probability[OF h] h p c show ?thesis by simp
qed

subsection \<open>Risk level and label\<close>

text \<open>
  Claim C10. Whenever the engine returns a result: the risk level is High or Critical
  exactly when the probability is at least 0.6, and then the label is Positive; no
  result has the level High or Critical together with the label Negative.
\<close>

theorem C10_high_risk_is_positive:
  "calculateRisk env input = Inr r \<Longrightarrow>
     ((risk_level r = High \<or> risk_level r = Critical) \<longleftrightarrow> 0.6 \<le> probability r) \<and>
     ((risk_level r = High \<or> risk_level r = Critical) \<longrightarrow> prediction_result r = Positive) \<and>
     \<not> ((risk_level r = High \<or> risk_level r = Critical) \<and> prediction_result r = Negative)"
proof -
  assume h: "calculateRisk env input = Inr r"
  note f = calculateRisk_Inr[OF h]
  have a: "(risk_level r = High \<or> risk_level r = Critical) \<longleftrightarrow> 0.6 \<le> probability r"
    using f determineRiskLevel_high[of "probability r"] by simp
  have b: "0.6 \<le> probability r \<Longrightarrow> prediction_result r = Positive"
    using f by auto
  from a b show ?thesis by auto
qed

theorem C10_high_risk_is_positive_witness:
  "\<exists>r. calculateRisk Insert_ok critical_example = Inr r \<and> risk_level r = Critical
      \<and> prediction_result r = Positive"
proof -
  obtain r where h: "calculateRisk Insert_ok critical_example = Inr r"
    using calculateRisk_returns by blast
  note f = calculateRisk_Inr[OF h]
  have "probability r = 1" using f by (simp add: modified_score_example_values)
  with C10_high_risk_is_positive[OF h] have "risk_level r = High \<or> risk_level r = Critical" by simp
  moreover have "risk_level r \<noteq> High"
    using f by (simp add: modified_score_example_values determineRiskLevel_def)
  ultimately have "risk_level r = Critical" by simp
  with C10_high_risk_is_positive[OF h] h show ?thesis by simp
qed

end
